theory Spec2Isabelle
  imports Complex_Main
begin

section \<open>Values, errors and array access\<close>

text \<open>
  The program is \<^verbatim>\<open>src/yatsm/yatsm.py\<close>. Its floating-point numbers are modelled as the
  real numbers they denote, with exact arithmetic; where the source can divide by zero,
  the case is written out or noted. A raised exception is a value \<open>Inl e\<close>.
\<close>

datatype error =
    IndexError              \<comment> \<open>an index outside an array, or the explicit raise of lines 182 and 190\<close>
  | ValueError              \<comment> \<open>\<^verbatim>\<open>max()\<close> of an empty sequence, mismatching shapes\<close>
  | AttributeError          \<comment> \<open>an attribute read before it was ever assigned\<close>
  | NotEnoughObservations   \<comment> \<open>the \<^verbatim>\<open>Exception('Not enough observations ...')\<close> of line 221\<close>
  | FitError                \<comment> \<open>a failure raised inside an external solver\<close>

definition on_ok :: "error + 'a \<Rightarrow> ('a \<Rightarrow> error + 'b) \<Rightarrow> error + 'b" where
  "on_ok m f = (case m of Inl e \<Rightarrow> Inl e | Inr v \<Rightarrow> f v)"

fun all_ok :: "(error + 'a) list \<Rightarrow> error + 'a list" where
  "all_ok [] = Inr []"
| "all_ok (m # ms) = on_ok m (\<lambda>v. on_ok (all_ok ms) (\<lambda>vs. Inr (v # vs)))"

text \<open>Indexing an axis of length \<open>n\<close> with a Python integer: negative indices count from the end.\<close>

definition py_index :: "nat \<Rightarrow> int \<Rightarrow> error + nat" where
  "py_index n i =
     (if 0 \<le> i \<and> i < int n then Inr (nat i)
      else if - int n \<le> i \<and> i < 0 then Inr (nat (int n + i))
      else Inl IndexError)"

definition item :: "'a list \<Rightarrow> int \<Rightarrow> error + 'a" where
  "item xs i = on_ok (py_index (length xs) i) (\<lambda>k. Inr (xs ! k))"

text \<open>A matrix is the list of its rows. \<^verbatim>\<open>M[i, j]\<close>, \<^verbatim>\<open>M[i, :]\<close> and \<^verbatim>\<open>M.shape\<close>:\<close>

definition cell :: "real list list \<Rightarrow> int \<Rightarrow> int \<Rightarrow> error + real" where
  "cell M i j = on_ok (item M i) (\<lambda>r. item r j)"

definition shape0 :: "real list list \<Rightarrow> nat" where
  "shape0 M = length M"

definition shape1 :: "real list list \<Rightarrow> nat" where
  \<comment> \<open>a matrix without rows is taken to have no columns\<close>
  "shape1 M = (case M of [] \<Rightarrow> 0 | r # _ \<Rightarrow> length r)"

text \<open>Python's \<^verbatim>\<open>max(seq)\<close>: the first element, replaced by each later one that is greater.\<close>

definition py_max :: "int list \<Rightarrow> error + int" where
  "py_max xs = (case xs of [] \<Rightarrow> Inl ValueError | x # ys \<Rightarrow> Inr (fold (\<lambda>y m. if y > m then y else m) ys x))"

text \<open>Storing a float into an \<^verbatim>\<open>'i4'\<close> field truncates towards zero (for values the field can hold).\<close>

definition i4 :: "real \<Rightarrow> int" where
  "i4 x = (if x < 0 then \<lceil>x\<rceil> else \<lfloor>x\<rfloor>)"

section \<open>Fitted models, segment records and the instance\<close>

text \<open>
  A fitted model as \<^verbatim>\<open>GLMLasso.fit\<close> (lines 25-58) and \<^verbatim>\<open>fit_models_LassoCV\<close> (lines 512-519)
  leave it: the solver's \<^verbatim>\<open>coef_\<close> and \<^verbatim>\<open>intercept_\<close>, the coefficients with the intercept
  folded into position 0, and the RMSE. \<^verbatim>\<open>predict\<close> is the solver library's linear
  prediction \<^verbatim>\<open>X . coef_ + intercept_\<close>.
\<close>

record model =
  solver_coef :: "real list"
  intercept :: real
  coef :: "real list"
  nobs :: nat
  rss :: real
  rmse :: real

definition dot :: "real list \<Rightarrow> real list \<Rightarrow> real" where
  "dot xs ys = sum_list (map2 (*) xs ys)"

definition predict :: "model \<Rightarrow> real list \<Rightarrow> real" where
  "predict m x = dot x (solver_coef m) + intercept m"

text \<open>One entry of the structured array \<^verbatim>\<open>record\<close> (lines 233-241).\<close>

record segment =
  r_start :: int
  r_end :: int
  r_break :: int
  r_coef :: "real list list"   \<comment> \<open>\<open>n_coef\<close> rows, one column per fitted band\<close>
  r_rmse :: "real list"
  r_px :: nat
  r_py :: nat

record yatsm =
  lassocv :: bool
  X :: "real list list"             \<comment> \<open>one row per observation; column 1 is the date\<close>
  Y :: "real list list"             \<comment> \<open>one row per band, one column per observation\<close>
  fit_indices :: "int list"
  test_indices :: "int list"
  n_band :: nat
  n_coef :: nat
  consecutive :: nat
  threshold :: real
  min_obs :: nat
  min_rmse :: real
  start :: int
  here :: int
  priv_here :: int                  \<comment> \<open>\<^verbatim>\<open>self._here\<close>\<close>
  monitoring :: bool
  ran :: bool
  models :: "model list"
  n_record :: nat
  record_template :: segment
  record_store :: "segment list"    \<comment> \<open>\<^verbatim>\<open>self.record\<close>\<close>
  priv_X :: "real list list option" \<comment> \<open>\<^verbatim>\<open>self._X\<close>, assigned first in \<^verbatim>\<open>train\<close>\<close>
  priv_Y :: "real list list option" \<comment> \<open>\<^verbatim>\<open>self._Y\<close>\<close>
  trained_date :: "real option"     \<comment> \<open>assigned first in \<^verbatim>\<open>run\<close>\<close>

section \<open>Construction\<close>

definition float_info_min :: real where
  \<comment> \<open>\<^verbatim>\<open>sys.float_info.min\<close>, the smallest positive normal double\<close>
  "float_info_min = 1 / 2 ^ 1022"

definition check_indices :: "int list option \<Rightarrow> nat \<Rightarrow> error + int list" where
  \<comment> \<open>lines 176-182 and 184-190\<close>
  "check_indices idx nb =
     (case idx of
        None \<Rightarrow> Inr (map int [0..<nb])
      | Some ixs \<Rightarrow>
          on_ok (py_max ixs) (\<lambda>m. if m < int nb then Inr ixs else Inl IndexError))"

definition zero_segment :: "nat \<Rightarrow> nat \<Rightarrow> segment" where
  "zero_segment nc nf =
     \<lparr> r_start = 0, r_end = 0, r_break = 0,
       r_coef = replicate nc (replicate nf 0), r_rmse = replicate nf 0,
       r_px = 0, r_py = 0 \<rparr>"

definition YATSM_init ::
  "real list list \<Rightarrow> real list list \<Rightarrow> nat \<Rightarrow> real \<Rightarrow> nat option \<Rightarrow> real option \<Rightarrow>
   int list option \<Rightarrow> int list option \<Rightarrow> bool \<Rightarrow> error + yatsm" where
  "YATSM_init Xa Ya consec thresh minobs minrmse fit_ix test_ix lcv =
     on_ok (check_indices fit_ix (shape0 Ya)) (\<lambda>fi.
     on_ok (check_indices test_ix (shape0 Ya)) (\<lambda>ti.
       let nc = shape1 Xa;
           mo = (case minobs of None \<Rightarrow> (nc * 3) div 2 | Some k \<Rightarrow> k);
           mr = (case minrmse of None \<Rightarrow> float_info_min
                 | Some r \<Rightarrow> if r = 0 then float_info_min else r);
           tpl = zero_segment nc (length fi)
       in if shape0 Xa < mo + consec then Inl NotEnoughObservations
          else Inr \<lparr> lassocv = lcv, X = Xa, Y = Ya, fit_indices = fi, test_indices = ti,
                     n_band = shape0 Ya, n_coef = nc, consecutive = consec,
                     threshold = thresh, min_obs = mo, min_rmse = mr,
                     start = 0, here = int mo, priv_here = int mo,
                     monitoring = False, ran = False, models = [],
                     n_record = 0, record_template = tpl, record_store = [tpl],
                     priv_X = None, priv_Y = None, trained_date = None \<rparr>))"

section \<open>External solvers\<close>

text \<open>
  The numerical solvers are library code outside the repository, so they are parameters:
  each maps a design matrix (one row per observation) and a response to an intercept
  and a coefficient vector (glmnet's \<^verbatim>\<open>elastic_net\<close> at \<open>lambda = 20\<close>, scikit-learn's
  \<^verbatim>\<open>LassoLarsIC\<close>), or to the parameter vector of a robust regression (statsmodels' \<^verbatim>\<open>RLM\<close>
  with Tukey's biweight). Any of them may raise.
\<close>

record externals =
  elastic_net :: "real list list \<Rightarrow> real list \<Rightarrow> error + real \<times> real list"
  lasso_lars_ic :: "real list list \<Rightarrow> real list \<Rightarrow> error + real \<times> real list"
  rlm_params :: "real list \<Rightarrow> real list list \<Rightarrow> error + real list"

definition ndays :: real where
  "ndays = 1461 / 4"

definition green_band :: int where
  "green_band = 1"

definition swir1_band :: int where
  "swir1_band = 4"

section \<open>Floating-point results of a division\<close>

text \<open>
  A normalized residual is a quotient whose denominator can be zero; numpy then yields
  \<open>inf\<close> or \<open>nan\<close> instead of raising. Such values propagate through the Euclidean norm
  and decide the comparison with the threshold (\<open>nan > t\<close> is false).
\<close>

datatype npfloat = Fin real | PInf | NaN

fun fin_of :: "npfloat \<Rightarrow> real" where
  "fin_of (Fin r) = r"
| "fin_of PInf = 0"
| "fin_of NaN = 0"

definition norm_resid :: "real \<Rightarrow> real \<Rightarrow> real \<Rightarrow> real \<Rightarrow> npfloat" where
  \<comment> \<open>\<^verbatim>\<open>np.abs(y - p) / max(min_rmse, m.rmse)\<close>\<close>
  "norm_resid y p mr rm =
     (let a = \<bar>y - p\<bar>; d = max mr rm
      in if d = 0 then (if a = 0 then NaN else PInf) else Fin (a / d))"

definition linalg_norm :: "npfloat list \<Rightarrow> npfloat" where
  "linalg_norm vs =
     (if NaN \<in> set vs then NaN
      else if PInf \<in> set vs then PInf
      else Fin (sqrt (sum_list (map (\<lambda>v. (fin_of v)\<^sup>2) vs))))"

fun np_gt :: "npfloat \<Rightarrow> real \<Rightarrow> bool" where
  "np_gt (Fin v) t = (v > t)"
| "np_gt PInf t = True"
| "np_gt NaN t = False"

section \<open>Index arrays, boolean masks and assignments\<close>

definition rows_at :: "'a list \<Rightarrow> int list \<Rightarrow> error + 'a list" where
  \<comment> \<open>\<^verbatim>\<open>A[index]\<close> for an integer index array\<close>
  "rows_at A idx = all_ok (map (item A) idx)"

definition arange_uint16 :: "int \<Rightarrow> int \<Rightarrow> int list" where
  \<comment> \<open>\<^verbatim>\<open>np.arange(a, b, dtype=np.uint16)\<close>: the values wrap at \<open>2^16\<close>\<close>
  "arange_uint16 a b = map (\<lambda>i. i mod 65536) [a..b - 1]"

definition select :: "bool list \<Rightarrow> 'a list \<Rightarrow> 'a list" where
  \<comment> \<open>\<^verbatim>\<open>A[mask]\<close> for a boolean mask as long as the axis\<close>
  "select msk xs = map snd (filter fst (zip msk xs))"

definition mask_cols :: "bool list \<Rightarrow> real list list \<Rightarrow> error + real list list" where
  \<comment> \<open>\<^verbatim>\<open>A[:, mask]\<close>: the mask has to be as long as the rows\<close>
  "mask_cols msk A =
     all_ok (map (\<lambda>r. if length r = length msk then Inr (select msk r) else Inl IndexError) A)"

definition broadcast :: "nat \<Rightarrow> 'a list \<Rightarrow> error + 'a list" where
  \<comment> \<open>the values assigned to \<open>k\<close> places: \<open>k\<close> values, or one value repeated\<close>
  "broadcast k vs =
     (if length vs = k then Inr vs
      else if length vs = 1 then Inr (replicate k (hd vs))
      else Inl ValueError)"

definition put :: "'a list \<Rightarrow> int list \<Rightarrow> 'a list \<Rightarrow> 'a list" where
  \<comment> \<open>\<^verbatim>\<open>A[index] = vals\<close> for in-range, non-negative indices: a later write wins\<close>
  "put xs idx vals = fold (\<lambda>(i, v) m. m[nat i := v]) (zip idx vals) xs"

definition neg_slice :: "nat \<Rightarrow> 'a list \<Rightarrow> 'a list" where
  \<comment> \<open>\<^verbatim>\<open>xs[:-c]\<close>; for \<open>c = 0\<close> this is \<^verbatim>\<open>xs[:0]\<close>, the empty list\<close>
  "neg_slice c xs = (if c = 0 then [] else take (length xs - c) xs)"

section \<open>Multitemporal mask\<close>

definition rlm_resid :: "externals \<Rightarrow> real list \<Rightarrow> real list list \<Rightarrow> error + real list" where
  \<comment> \<open>\<^verbatim>\<open>sm.RLM(y, A, ...).fit().resid\<close>: the response minus the fitted values\<close>
  "rlm_resid ext y A =
     on_ok (rlm_params ext y A) (\<lambda>ps. Inr (map2 (\<lambda>yi r. yi - dot r ps) y A))"

definition mask_design :: "real list \<Rightarrow> real \<Rightarrow> real list list" where
  \<comment> \<open>lines 109-119, transposed: one row of five regressors per time value. \<^verbatim>\<open>train\<close> passes a
      span above 365.25 as \<open>n_year\<close>; for \<open>\<lceil>n_year\<rceil> = 0\<close> numpy's regressors are not finite,
      which the reals do not show\<close>
  "mask_design x n_year =
     (let ny = real_of_int \<lceil>n_year\<rceil>; w = 2 * pi / ndays
      in map (\<lambda>t. [1, cos (w * t), sin (w * t), cos (w / ny * t), sin (w / ny * t)]) x)"

definition multitemp_mask ::
  "externals \<Rightarrow> real list \<Rightarrow> real list list \<Rightarrow> real \<Rightarrow> real \<Rightarrow> int \<Rightarrow> int \<Rightarrow> error + bool list" where
  "multitemp_mask ext x Ya n_year crit green swir1 =
     (let A = mask_design x n_year in
      on_ok (item Ya green) (\<lambda>yg.
      if length yg \<noteq> length A then Inl ValueError else
      on_ok (item Ya swir1) (\<lambda>ys.
      if length ys \<noteq> length A then Inl ValueError else
      on_ok (rlm_resid ext yg A) (\<lambda>rg.
      on_ok (rlm_resid ext ys A) (\<lambda>rs.
        Inr (map2 (\<lambda>g s. g < crit \<and> s > - crit) rg rs))))))"

section \<open>Fitting one model per band\<close>

fun fold_ok :: "('a \<Rightarrow> 's \<Rightarrow> error + 's) \<Rightarrow> 'a list \<Rightarrow> 's \<Rightarrow> error + 's" where
  "fold_ok f [] s = Inr s"
| "fold_ok f (x # xs) s = on_ok (f x s) (fold_ok f xs)"

text \<open>
  \<^verbatim>\<open>GLMLasso.fit\<close> (lines 25-58) and the body of the loop of \<^verbatim>\<open>fit_models_LassoCV\<close> (lines
  512-519) do the same after their solver returns: the coefficient vector has one entry
  per column of the design, position 0 of \<^verbatim>\<open>coef\<close> takes the intercept, and the RMSE is
  \<^verbatim>\<open>math.sqrt(rss / nobs)\<close>. An empty sample is not fitted: the solvers reject it, so
  the \<open>0 / 0\<close> of the source does not arise.
\<close>

definition fit_band :: "externals \<Rightarrow> bool \<Rightarrow> real list list \<Rightarrow> real list \<Rightarrow> error + model" where
  "fit_band ext lcv Xi yi =
     (if Xi = [] \<or> yi = [] then Inl FitError
      else on_ok ((if lcv then lasso_lars_ic ext else elastic_net ext) Xi yi) (\<lambda>(b0, c).
        let nc = shape1 Xi;
            c0 = take nc (c @ replicate nc 0)
        in if nc = 0 then Inl IndexError
           else
             let fitted = map (\<lambda>r. dot r c0 + b0) Xi;
                 rs = sum_list (map2 (\<lambda>y f. (y - f)\<^sup>2) yi fitted)
             in Inr \<lparr> solver_coef = c0, intercept = b0, coef = (hd c0 + b0) # tl c0,
                      nobs = length yi, rss = rs, rmse = sqrt (rs / real (length yi)) \<rparr>))"

definition fit_models ::
  "externals \<Rightarrow> yatsm \<Rightarrow> real list list \<Rightarrow> real list list \<Rightarrow> int list \<Rightarrow> error + model list" where
  \<comment> \<open>lines 481-523 with \<^verbatim>\<open>index=None\<close>: the rows \<^verbatim>\<open>start .. here\<close>\<close>
  "fit_models ext s Xa Ya bands =
     (let index = [start s..here s] in
      all_ok (map (\<lambda>b.
        on_ok (rows_at Xa index) (\<lambda>Xi.
        on_ok (item Ya b) (\<lambda>yb.
        on_ok (rows_at yb index) (\<lambda>yi.
          fit_band ext (lassocv s) Xi yi)))) bands))"

section \<open>The segment state machine\<close>

definition span_time :: "yatsm \<Rightarrow> error + real" where
  "span_time s =
     on_ok (cell (X s) (here s) 1) (\<lambda>a.
     on_ok (cell (X s) (start s) 1) (\<lambda>b. Inr \<bar>a - b\<bar>))"

definition span_index :: "yatsm \<Rightarrow> int" where
  "span_index s = here s - start s"


definition can_monitor :: "yatsm \<Rightarrow> bool" where
  "can_monitor s = (here s < int (shape0 (X s)) - int (consecutive s) - 1)"

definition reset :: "yatsm \<Rightarrow> yatsm" where
  "reset s =
     s\<lparr> n_record := 0, record_store := [record_template s], start := 0,
        here := int (min_obs s), priv_here := int (min_obs s), ran := False \<rparr>"

definition train_index :: "yatsm \<Rightarrow> int list" where
  \<comment> \<open>line 372\<close>
  "train_index s = arange_uint16 (start s) (here s + int (consecutive s))"

definition train_mask :: "externals \<Rightarrow> yatsm \<Rightarrow> error + bool list" where
  \<comment> \<open>lines 371-375: all true, but for the window, which takes the multitemporal mask\<close>
  "train_mask ext s =
     (let index = train_index s in
      on_ok (all_ok (map (\<lambda>i. cell (X s) i 1) index)) (\<lambda>x.
      on_ok (all_ok (map (\<lambda>r. rows_at r index) (Y s))) (\<lambda>Yw.
      on_ok (span_time s) (\<lambda>st.
      on_ok (multitemp_mask ext x Yw st 400 green_band swir1_band) (\<lambda>mm.
      on_ok (broadcast (length index) mm) (\<lambda>vals.
        Inr (put (replicate (shape0 (X s)) True) index vals)))))))"

definition masked_span :: "yatsm \<Rightarrow> bool list \<Rightarrow> nat" where
  \<comment> \<open>line 378: \<^verbatim>\<open>mask[index][:-self.consecutive].sum()\<close>\<close>
  "masked_span s msk =
     length (filter (\<lambda>v. v) (neg_slice (consecutive s) (map (\<lambda>i. msk ! nat i) (train_index s))))"

definition end_resids ::
  "yatsm \<Rightarrow> real list list \<Rightarrow> real list list \<Rightarrow> model list \<Rightarrow> error + (npfloat \<times> npfloat) list" where
  \<comment> \<open>lines 407-415: the normalized residuals at the first and the last row of the window\<close>
  "end_resids s Xm Ym ms =
     all_ok (map (\<lambda>(b, m).
       on_ok (cell Ym b (start s)) (\<lambda>y0.
       on_ok (item Xm (start s)) (\<lambda>x0.
       on_ok (cell Ym b (here s)) (\<lambda>y1.
       on_ok (item Xm (here s)) (\<lambda>x1.
         Inr (norm_resid y0 (predict m x0) (min_rmse s) (rmse m),
              norm_resid y1 (predict m x1) (min_rmse s) (rmse m)))))))
       (zip (test_indices s) ms))"

definition train_masked :: "externals \<Rightarrow> yatsm \<Rightarrow> bool list \<Rightarrow> error + yatsm" where
  \<comment> \<open>lines 377-429: \<^verbatim>\<open>train\<close> from the point where the mask of the window is known\<close>
  "train_masked ext s msk =
     (let span' = masked_span s msk in
      if span' < min_obs s then Inr s
      else
        let Xm = select msk (X s) in
        on_ok (mask_cols msk (Y s)) (\<lambda>Ym.
        let s1 = s\<lparr> priv_X := Some Xm, priv_Y := Some Ym, priv_here := here s,
                     here := start s + int span' - 1 \<rparr> in
        on_ok (span_time s1) (\<lambda>st1.
        if st1 < ndays then Inr (s1\<lparr> here := priv_here s1 \<rparr>)
        else
          on_ok (fit_models ext s1 Xm Ym (test_indices s1)) (\<lambda>ms.
          on_ok (end_resids s1 Xm Ym ms) (\<lambda>res.
            if np_gt (linalg_norm (map fst res)) (threshold s1) \<or>
               np_gt (linalg_norm (map snd res)) (threshold s1)
            then Inr (s1\<lparr> start := start s1 + 1, here := priv_here s1 \<rparr>)
            else Inr (s1\<lparr> X := Xm, Y := Ym, monitoring := True \<rparr>))))))"

definition train :: "externals \<Rightarrow> yatsm \<Rightarrow> error + yatsm" where
  \<comment> \<open>lines 363-375, then the above\<close>
  "train ext s =
     on_ok (span_time s) (\<lambda>st.
     if st \<le> ndays \<or> span_index s < int (n_coef s) then Inr s
     else on_ok (train_mask ext s) (train_masked ext s))"

definition set_col :: "nat \<Rightarrow> real list \<Rightarrow> real list list \<Rightarrow> error + real list list" where
  \<comment> \<open>\<^verbatim>\<open>M[:, i] = v\<close>\<close>
  "set_col i v M =
     on_ok (broadcast (length M) v) (\<lambda>vs.
       if list_all (\<lambda>r. i < length r) M then Inr (map2 (\<lambda>r x. r[i := x]) M vs)
       else Inl IndexError)"

definition store_model :: "nat \<times> model \<Rightarrow> segment \<Rightarrow> error + segment" where
  \<comment> \<open>lines 444-445\<close>
  "store_model im r =
     (case im of (i, m) \<Rightarrow>
        on_ok (set_col i (coef m) (r_coef r)) (\<lambda>c.
          if i < length (r_rmse r)
          then Inr (r\<lparr> r_coef := c, r_rmse := (r_rmse r)[i := rmse m] \<rparr>)
          else Inl IndexError))"

definition update_model :: "externals \<Rightarrow> yatsm \<Rightarrow> error + yatsm" where
  "update_model ext s =
     on_ok (cell (X s) (here s) 1) (\<lambda>d.
     case trained_date s of
       None \<Rightarrow> Inl AttributeError
     | Some td \<Rightarrow>
         if \<bar>d - td\<bar> > ndays then
           on_ok (fit_models ext s (X s) (Y s) (fit_indices s)) (\<lambda>ms.
           on_ok (cell (X s) (start s) 1) (\<lambda>d0.
           on_ok (item (record_store s) (int (n_record s))) (\<lambda>r.
           on_ok (fold_ok store_model (enumerate 0 ms) (r\<lparr> r_start := i4 d0, r_end := i4 d \<rparr>)) (\<lambda>r'.
             Inr (s\<lparr> models := ms,
                      record_store := (record_store s)[n_record s := r'],
                      trained_date := Some d \<rparr>)))))
         else
           on_ok (item (record_store s) (int (n_record s))) (\<lambda>r.
             Inr (s\<lparr> record_store := (record_store s)[n_record s := r\<lparr> r_end := i4 d \<rparr>] \<rparr>)))"

definition monitor_scores :: "yatsm \<Rightarrow> error + npfloat list list" where
  \<comment> \<open>lines 456-465: one row per future observation, one column per tested band\<close>
  "monitor_scores s =
     all_ok (map (\<lambda>i.
       all_ok (map (\<lambda>b.
         on_ok (item (models s) b) (\<lambda>m.
         on_ok (cell (Y s) b (here s + int i)) (\<lambda>y.
         on_ok (item (X s) (here s + int i)) (\<lambda>x.
           Inr (norm_resid y (predict m x) (min_rmse s) (rmse m))))))
         (test_indices s)))
       [0..<consecutive s])"

definition monitor :: "yatsm \<Rightarrow> error + yatsm" where
  "monitor s =
     on_ok (monitor_scores s) (\<lambda>scores.
       let mag = map linalg_norm scores in
       if list_all (\<lambda>m. np_gt m (threshold s)) mag then
         on_ok (cell (X s) (here s + 1) 1) (\<lambda>d.
         on_ok (item (record_store s) (int (n_record s))) (\<lambda>r.
           Inr (s\<lparr> record_store :=
                      (record_store s)[n_record s := r\<lparr> r_break := i4 d \<rparr>] @ [record_template s],
                    n_record := n_record s + 1,
                    start := here s + 1,
                    monitoring := False \<rparr>)))
       else Inr s)"

section \<open>The loops of \<^verbatim>\<open>run\<close>\<close>

lemma on_okE:
  assumes "on_ok m f = Inr v"
  obtains u where "m = Inr u" and "f u = Inr v"
  using assms by (cases m) (simp_all add: on_ok_def)

lemma train_cursor:
  assumes "train ext s = Inr s'"
  shows "monitoring s' \<or> X s' = X s \<and> here s' = here s"
  using assms unfolding train_def train_masked_def Let_def
  by (auto elim!: on_okE split: if_splits)



text \<open>The inner loop of lines 345-347. It ends: a pass either enters monitoring or moves on by one row.\<close>

function train_loop :: "externals \<Rightarrow> yatsm \<Rightarrow> error + yatsm" where
  "train_loop ext s =
     (if \<not> monitoring s \<and> can_monitor s then
        (case train ext s of
           Inl e \<Rightarrow> Inl e
         | Inr s' \<Rightarrow> train_loop ext (s'\<lparr> here := here s' + 1 \<rparr>))
      else Inr s)"
  by pat_completeness auto
termination
proof (relation "measure (\<lambda>(ext, s). if monitoring s then 0 else 1 + nat (int (shape0 (X s)) - here s))")
  show "wf (measure (\<lambda>(ext, s). if monitoring s then 0 else 1 + nat (int (shape0 (X s)) - here s)))"
    by simp
next
  fix ext s s'
  assume "\<not> monitoring s \<and> can_monitor s" and "train ext s = Inr s'"
  then show "((ext, s'\<lparr> here := here s' + 1 \<rparr>), ext, s)
      \<in> measure (\<lambda>(ext, s). if monitoring s then 0 else 1 + nat (int (shape0 (X s)) - here s))"
    using train_cursor[of ext s s'] by (auto simp: can_monitor_def)
qed

declare train_loop.simps [simp del]





section \<open>Robust refit\<close>









section \<open>Relations between states\<close>


text \<open>
  The order in which \<^verbatim>\<open>run\<close> makes progress: a step drops observations, or keeps them and
  does not move the cursor back.
\<close>

definition progress :: "yatsm \<Rightarrow> yatsm \<Rightarrow> bool" where
  "progress s s' \<longleftrightarrow>
     consecutive s' = consecutive s \<and> min_obs s' = min_obs s \<and>
     (shape0 (X s') < shape0 (X s) \<or> shape0 (X s') = shape0 (X s) \<and> here s \<le> here s')"

section \<open>Concrete solvers and inputs for the examples\<close>

definition zero_solvers :: externals where
  \<comment> \<open>solvers that return zero coefficients, so that every residual is the response itself\<close>
  "zero_solvers =
     \<lparr> elastic_net = (\<lambda>A y. Inr (0, [])),
       lasso_lars_ic = (\<lambda>A y. Inr (0, [])),
       rlm_params = (\<lambda>y A. Inr [0, 0, 0, 0, 0]) \<rparr>"






text \<open>
  Seven observations of five bands, one cloud (green band, third observation) and a level
  shift in band 0 from the fifth observation on; and five observations whose fourth is
  exactly 365.25 days after the first.
\<close>

definition shift_X :: "real list list" where
  "shift_X = [[1, 1, 0], [1, 401, 0], [1, 402, 0], [1, 403, 0], [1, 404, 0], [1, 405, 0], [1, 406, 0]]"

definition shift_Y :: "real list list" where
  "shift_Y = [[0, 0, 0, 0, 900, 900, 900],
              [0, 0, 500, 0, 0, 0, 0],
              [0, 0, 0, 0, 0, 0, 0],
              [0, 0, 0, 0, 0, 0, 0],
              [0, 0, 0, 0, 0, 0, 0]]"

definition shift_instance :: yatsm where
  "shift_instance =
     \<lparr> lassocv = False, X = shift_X, Y = shift_Y,
       fit_indices = [0, 1, 2, 3, 4], test_indices = [0],
       n_band = 5, n_coef = 3, consecutive = 1, threshold = 2, min_obs = 2, min_rmse = 1,
       start = 0, here = 2, priv_here = 2, monitoring = False, ran = False, models = [],
       n_record = 0, record_template = zero_segment 3 5, record_store = [zero_segment 3 5],
       priv_X = None, priv_Y = None, trained_date = None \<rparr>"

definition boundary_X :: "real list list" where
  "boundary_X = [[1, 0, 0], [1, 100, 0], [1, 200, 0], [1, 1461 / 4, 0], [1, 400, 0]]"

definition boundary_instance :: yatsm where
  "boundary_instance =
     \<lparr> lassocv = False, X = boundary_X, Y = [[0, 0, 0, 0, 0]],
       fit_indices = [0], test_indices = [0],
       n_band = 1, n_coef = 3, consecutive = 1, threshold = 2, min_obs = 3, min_rmse = 1,
       start = 0, here = 3, priv_here = 3, monitoring = False, ran = False, models = [],
       n_record = 0, record_template = zero_segment 3 1, record_store = [zero_segment 3 1],
       priv_X = None, priv_Y = None, trained_date = None \<rparr>"





section \<open>The states of a run and the order of the records\<close>

text \<open>The dates of the observations: column 1 of \<open>X\<close>.\<close>

definition dates :: "real list list \<Rightarrow> real list" where
  "dates M = map (\<lambda>r. r ! 1) M"





text \<open>The open record has been written by a refit of the current segment.\<close>

definition fitted :: "yatsm \<Rightarrow> bool" where
  "fitted s \<longleftrightarrow>
     nat (start s) < length (X s) \<and>
     r_start (last (record_store s)) = i4 (dates (X s) ! nat (start s)) \<and>
     list_all (\<lambda>q. r_start q \<le> r_start (last (record_store s))) (butlast (record_store s))"



section \<open>Basic facts\<close>

lemma on_ok_Inr_iff: "on_ok m f = Inr v \<longleftrightarrow> (\<exists>u. m = Inr u \<and> f u = Inr v)"
  by (cases m) (simp_all add: on_ok_def)


lemma on_ok_simps: "on_ok (Inl e) f = Inl e" "on_ok (Inr v) f = f v"
  by (simp_all add: on_ok_def)

lemma fold_py_max: "fold (\<lambda>y m. if y > m then y else m) ys (x::int) = Max (set (x # ys))"
proof -
  have "(\<lambda>y m. if y > m then y else m) = (max :: int \<Rightarrow> int \<Rightarrow> int)"
    by (intro ext) (simp add: max_def)
  then show ?thesis by (simp only: Max.set_eq_fold)
qed

lemma py_max_Max: "xs \<noteq> [] \<Longrightarrow> py_max xs = Inr (Max (set xs))"
  by (cases xs) (simp_all add: py_max_def fold_py_max del: Max_insert set_simps)

lemma check_indices_Some:
  "check_indices (Some ixs) nb =
     (if ixs = [] then Inl ValueError else if Max (set ixs) < int nb then Inr ixs else Inl IndexError)"
  by (simp add: check_indices_def py_max_Max on_ok_simps) (simp add: py_max_def on_ok_simps)


section \<open>Construction: the checks of the index sets and of the observation count\<close>

text \<open>
  C10. Construction looks at a given index set only through its maximum: when both sets
  are non-empty and their maxima are below the number of bands, construction raises
  neither the invalid-index error nor any error of the index check, and the instance it
  builds holds the two sets as given. Negative entries are never looked at.
\<close>

theorem C10_index_sets_checked_by_maximum:
  assumes "fi \<noteq> []" and "Max (set fi) < int (shape0 Ya)"
    and "ti \<noteq> []" and "Max (set ti) < int (shape0 Ya)"
  shows "YATSM_init Xa Ya c t mo mr (Some fi) (Some ti) l \<noteq> Inl IndexError \<and>
         YATSM_init Xa Ya c t mo mr (Some fi) (Some ti) l \<noteq> Inl ValueError \<and>
         (YATSM_init Xa Ya c t mo mr (Some fi) (Some ti) l = Inl NotEnoughObservations \<or>
          (\<exists>s. YATSM_init Xa Ya c t mo mr (Some fi) (Some ti) l = Inr s \<and>
               fit_indices s = fi \<and> test_indices s = ti))"
  using assms by (simp add: YATSM_init_def check_indices_Some on_ok_simps Let_def)

theorem C10_negative_indices_witness:
  "[- 1, 0] \<noteq> ([]::int list) \<and> Max (set [- 1, 0]) < int (shape0 [[5, 6, 7]]) \<and>
   [- 3] \<noteq> ([]::int list) \<and> Max (set [- 3]) < int (shape0 [[5, 6, 7]]) \<and>
   YATSM_init [[1, 1], [1, 2], [1, 3]] [[5, 6, 7]] 1 2 (Some 2) None (Some [- 1, 0]) (Some [- 3]) False
     \<noteq> Inl IndexError \<and>
   (\<exists>s. YATSM_init [[1, 1], [1, 2], [1, 3]] [[5, 6, 7]] 1 2 (Some 2) None (Some [- 1, 0]) (Some [- 3]) False = Inr s
      \<and> fit_indices s = [- 1, 0] \<and> test_indices s = [- 3])"
proof -
  have a: "[- 1, 0] \<noteq> ([]::int list)" "Max (set [- 1, 0]) < int (shape0 [[5, 6, 7]])"
    "[- 3] \<noteq> ([]::int list)" "Max (set [- 3]) < int (shape0 [[5, 6, 7]])"
    by (simp_all add: shape0_def)
  have ne: "YATSM_init [[1, 1], [1, 2], [1, 3]] [[5, 6, 7]] 1 2 (Some 2) None (Some [- 1, 0]) (Some [- 3]) False
      \<noteq> Inl NotEnoughObservations"
    by (simp add: YATSM_init_def check_indices_Some on_ok_simps Let_def shape0_def)
  from C10_index_sets_checked_by_maximum[OF a, of "[[1, 1], [1, 2], [1, 3]]" 1 2 "Some 2" None False] a ne
  show ?thesis by blast
qed




section \<open>Multitemporal mask\<close>

text \<open>
  C7. For a fixed window (times, responses, span) and critical values \<open>c1 \<le> c2\<close>: when the
  mask is computed with \<open>c1\<close>, it is computed with \<open>c2\<close> too, from the same two residual
  vectors, which do not depend on the critical value; an observation is kept iff its
  green residual is below the critical value and its shortwave-infrared residual is
  above the negated critical value; and every observation kept with \<open>c1\<close> is kept with \<open>c2\<close>.
\<close>

theorem C7_mask_monotone_in_crit:
  assumes "c1 \<le> c2" and "multitemp_mask ext x Ya n_year c1 green swir1 = Inr m1"
  shows "\<exists>rg rs. m1 = map2 (\<lambda>g s. g < c1 \<and> s > - c1) rg rs \<and>
           multitemp_mask ext x Ya n_year c2 green swir1 = Inr (map2 (\<lambda>g s. g < c2 \<and> s > - c2) rg rs) \<and>
           list_all2 (\<lambda>kept1 kept2. kept1 \<longrightarrow> kept2) m1 (map2 (\<lambda>g s. g < c2 \<and> s > - c2) rg rs)"
proof -
  from assms(2) obtain yg ys rg rs where
    f: "item Ya green = Inr yg" "length yg = length (mask_design x n_year)"
       "item Ya swir1 = Inr ys" "length ys = length (mask_design x n_year)"
       "rlm_resid ext yg (mask_design x n_year) = Inr rg"
       "rlm_resid ext ys (mask_design x n_year) = Inr rs"
       "m1 = map2 (\<lambda>g s. g < c1 \<and> s > - c1) rg rs"
    unfolding multitemp_mask_def Let_def
    by (auto elim!: on_okE split: if_splits)
  have 2: "multitemp_mask ext x Ya n_year c2 green swir1 = Inr (map2 (\<lambda>g s. g < c2 \<and> s > - c2) rg rs)"
    using f by (simp add: multitemp_mask_def Let_def on_ok_simps)
  have 3: "list_all2 (\<lambda>kept1 kept2. kept1 \<longrightarrow> kept2) (map2 (\<lambda>g s. g < c1 \<and> s > - c1) rg rs)
      (map2 (\<lambda>g s. g < c2 \<and> s > - c2) rg rs)"
    using assms(1) by (auto simp: list_all2_conv_all_nth)
  from f(7) 2 3 show ?thesis by blast
qed

theorem C7_witness:
  "(400::real) \<le> 500 \<and>
   multitemp_mask zero_solvers [1, 2] [[0, 0], [100, 450], [0, 0], [0, 0], [- 450, 50]] 1 400 1 4
     = Inr [False, False] \<and>
   multitemp_mask zero_solvers [1, 2] [[0, 0], [100, 450], [0, 0], [0, 0], [- 450, 50]] 1 500 1 4
     = Inr [True, True]"
proof -
  have a: "(400::real) \<le> 500" by simp
  have b: "multitemp_mask zero_solvers [1, 2] [[0, 0], [100, 450], [0, 0], [0, 0], [- 450, 50]] 1 400 1 4
      = Inr [False, False]"
    by (simp add: multitemp_mask_def mask_design_def item_def py_index_def on_ok_simps
        rlm_resid_def zero_solvers_def dot_def Let_def)
  have c: "multitemp_mask zero_solvers [1, 2] [[0, 0], [100, 450], [0, 0], [0, 0], [- 450, 50]] 1 500 1 4
      = Inr [True, True]"
    by (simp add: multitemp_mask_def mask_design_def item_def py_index_def on_ok_simps
        rlm_resid_def zero_solvers_def dot_def Let_def)
  from C7_mask_monotone_in_crit[OF a b] a b c show ?thesis by simp
qed

section \<open>Robust refit\<close>














section \<open>The monitoring step\<close>





section \<open>The guard of \<^verbatim>\<open>train\<close>\<close>

text \<open>Unfolding the definitions on the concrete instances.\<close>

lemmas evs = train_def train_masked_def train_mask_def train_index_def arange_uint16_def
  masked_span_def neg_slice_def span_time_def span_index_def cell_def item_def py_index_def
  on_ok_simps multitemp_mask_def mask_design_def rlm_resid_def rows_at_def broadcast_def put_def
  select_def mask_cols_def fit_models_def fit_band_def end_resids_def norm_resid_def linalg_norm_def
  predict_def dot_def ndays_def green_band_def swir1_band_def shape0_def shape1_def
  zero_solvers_def shift_instance_def shift_X_def shift_Y_def Let_def

text \<open>
  C4, as the code has it. With \<open>st\<close> the time span \<open>|X[here, 1] - X[start, 1]|\<close>: if
  \<open>st \<le> 365.25\<close> or \<open>here - start < n_coef\<close>, \<^verbatim>\<open>train\<close> returns the instance unchanged, and
  the loop of \<^verbatim>\<open>run\<close> goes on with the cursor one row further; if \<open>st > 365.25\<close> and
  \<open>here - start \<ge> n_coef\<close>, \<^verbatim>\<open>train\<close> is the masking stage followed by the rest, and an error
  of the masking stage is an error of \<^verbatim>\<open>train\<close>.
\<close>

theorem C4_train_guard:
  assumes "span_time s = Inr st"
  shows "(st \<le> ndays \<or> span_index s < int (n_coef s) \<longrightarrow> train ext s = Inr s) \<and>
         (ndays < st \<and> int (n_coef s) \<le> span_index s \<longrightarrow>
            train ext s = on_ok (train_mask ext s) (train_masked ext s) \<and>
            (\<forall>e. train_mask ext s = Inl e \<longrightarrow> train ext s = Inl e)) \<and>
         (\<not> monitoring s \<and> can_monitor s \<and> (st \<le> ndays \<or> span_index s < int (n_coef s)) \<longrightarrow>
            train_loop ext s = train_loop ext (s\<lparr> here := here s + 1 \<rparr>))"
proof -
  have 1: "train ext s = Inr s" if "st \<le> ndays \<or> span_index s < int (n_coef s)"
    using assms that by (auto simp: train_def on_ok_simps)
  have 2: "train ext s = on_ok (train_mask ext s) (train_masked ext s)"
    if "ndays < st \<and> int (n_coef s) \<le> span_index s"
    using assms that by (auto simp: train_def on_ok_simps)
  have 3: "train_loop ext s = train_loop ext (s\<lparr> here := here s + 1 \<rparr>)"
    if "\<not> monitoring s \<and> can_monitor s \<and> (st \<le> ndays \<or> span_index s < int (n_coef s))"
    using 1 that by (subst train_loop.simps) simp
  from 1 2 3 show ?thesis by (auto simp: on_ok_simps)
qed

theorem C4_witness:
  "span_time shift_instance = Inr 401 \<and> span_index shift_instance < int (n_coef shift_instance) \<and>
   train zero_solvers shift_instance = Inr shift_instance \<and>
   span_time (shift_instance\<lparr> here := 3 \<rparr>) = Inr 402 \<and> ndays < 402 \<and>
   int (n_coef (shift_instance\<lparr> here := 3 \<rparr>)) \<le> span_index (shift_instance\<lparr> here := 3 \<rparr>) \<and>
   train zero_solvers (shift_instance\<lparr> here := 3 \<rparr>) =
     on_ok (train_mask zero_solvers (shift_instance\<lparr> here := 3 \<rparr>))
           (train_masked zero_solvers (shift_instance\<lparr> here := 3 \<rparr>))"
proof -
  have a: "span_time shift_instance = Inr 401" by (simp add: evs)
  have b: "span_index shift_instance < int (n_coef shift_instance)" by (simp add: evs)
  have c: "span_time (shift_instance\<lparr> here := 3 \<rparr>) = Inr 402" by (simp add: evs)
  have d: "ndays < 402 \<and> int (n_coef (shift_instance\<lparr> here := 3 \<rparr>)) \<le> span_index (shift_instance\<lparr> here := 3 \<rparr>)"
    by (simp add: evs)
  from C4_train_guard[OF a, of zero_solvers] C4_train_guard[OF c, of zero_solvers] a b c d
  show ?thesis by simp
qed

theorem C4_counterexample:
  "YATSM_init boundary_X [[0, 0, 0, 0, 0]] 1 2 (Some 3) (Some 1) None None False = Inr boundary_instance \<and>
   span_time boundary_instance = Inr (1461 / 4) \<and>
   int (n_coef boundary_instance) \<le> span_index boundary_instance \<and>
   train_mask zero_solvers boundary_instance = Inl IndexError \<and>
   train zero_solvers boundary_instance = Inr boundary_instance"
  by (simp add: YATSM_init_def check_indices_def evs boundary_instance_def boundary_X_def
      upto_rec1 upt_rec eval_nat_numeral zero_segment_def)

section \<open>What a successful \<^verbatim>\<open>train\<close> commits\<close>

lemma length_put: "length (put xs idx vals) = length xs"
proof -
  have "length (fold (\<lambda>(i, v) m. m[nat i := v]) ps xs) = length xs" for ps :: "(int \<times> 'a) list"
    by (induction ps arbitrary: xs) (auto split: prod.splits)
  then show ?thesis by (simp add: put_def)
qed

lemma train_mask_length:
  assumes "train_mask ext s = Inr msk"
  shows "length msk = shape0 (X s)"
  using assms unfolding train_mask_def Let_def
  by (auto elim!: on_okE simp: length_put)

lemma train_success:
  assumes "train ext s = Inr s'" and "\<not> monitoring s" and "monitoring s'"
  shows "\<exists>msk Ym st st1. train_mask ext s = Inr msk \<and> mask_cols msk (Y s) = Inr Ym \<and>
           span_time s = Inr st \<and> ndays < st \<and> int (n_coef s) \<le> span_index s \<and>
           min_obs s \<le> masked_span s msk \<and>
           span_time (s\<lparr> priv_X := Some (select msk (X s)), priv_Y := Some Ym, priv_here := here s,
                          here := start s + int (masked_span s msk) - 1 \<rparr>) = Inr st1 \<and>
           ndays \<le> st1 \<and>
           s' = s\<lparr> priv_X := Some (select msk (X s)), priv_Y := Some Ym, priv_here := here s,
                   here := start s + int (masked_span s msk) - 1,
                   X := select msk (X s), Y := Ym, monitoring := True \<rparr>"
  using assms unfolding train_def train_masked_def Let_def
  by (auto elim!: on_okE split: if_splits)

text \<open>
  C9. When \<^verbatim>\<open>train\<close> is called while accumulating and returns in the monitoring state,
  the instance's \<open>X\<close> and \<open>Y\<close> are the rows and columns that the mask of the window
  keeps, so never more observations than before. \<^verbatim>\<open>update_model\<close> and \<^verbatim>\<open>monitor\<close> read and
  keep these matrices, and \<^verbatim>\<open>reset\<close> puts back the cursor, the segment start, the record
  store and the \<open>ran\<close> flag but leaves \<open>X\<close> and \<open>Y\<close> as they are: nothing restores the
  observations that were dropped.
\<close>

theorem C9_train_commits_masked_data:
  assumes "train ext s = Inr s'" and "\<not> monitoring s" and "monitoring s'"
  shows "(\<exists>msk. train_mask ext s = Inr msk \<and> length msk = shape0 (X s) \<and>
            X s' = select msk (X s) \<and> mask_cols msk (Y s) = Inr (Y s')) \<and>
         shape0 (X s') \<le> shape0 (X s) \<and>
         (\<forall>s2. update_model ext s' = Inr s2 \<longrightarrow> X s2 = X s' \<and> Y s2 = Y s') \<and>
         (\<forall>s2. monitor s' = Inr s2 \<longrightarrow> X s2 = X s' \<and> Y s2 = Y s') \<and>
         X (reset s') = X s' \<and> Y (reset s') = Y s' \<and>
         start (reset s') = 0 \<and> here (reset s') = int (min_obs s') \<and>
         record_store (reset s') = [record_template s'] \<and> n_record (reset s') = 0 \<and>
         \<not> ran (reset s')"
proof -
  from train_success[OF assms] obtain msk Ym where
    m: "train_mask ext s = Inr msk" "mask_cols msk (Y s) = Inr Ym"
    and s': "X s' = select msk (X s)" "Y s' = Ym"
    by auto
  have len: "length msk = shape0 (X s)" by (rule train_mask_length[OF m(1)])
  have "length (filter fst (zip msk (X s))) \<le> length (zip msk (X s))"
    by (rule length_filter_le)
  then have le: "shape0 (X s') \<le> shape0 (X s)"
    unfolding s' shape0_def select_def by simp
  have u: "X s2 = X s' \<and> Y s2 = Y s'" if "update_model ext s' = Inr s2" for s2
    using that unfolding update_model_def Let_def
    by (auto elim!: on_okE split: if_splits option.splits)
  have mo: "X s2 = X s' \<and> Y s2 = Y s'" if "monitor s' = Inr s2" for s2
    using that unfolding monitor_def Let_def
    by (auto elim!: on_okE split: if_splits)
  show ?thesis using m s' len le u mo by (auto simp: reset_def)
qed


theorem C9_witness:
  "train zero_solvers (shift_instance\<lparr> here := 3 \<rparr>) =
     Inr (shift_instance\<lparr>
        priv_X := Some [[1, 1, 0], [1, 401, 0], [1, 403, 0], [1, 404, 0], [1, 405, 0], [1, 406, 0]],
        priv_Y := Some [[0, 0, 0, 900, 900, 900], [0, 0, 0, 0, 0, 0], [0, 0, 0, 0, 0, 0],
                        [0, 0, 0, 0, 0, 0], [0, 0, 0, 0, 0, 0]],
        priv_here := 3, here := 1,
        X := [[1, 1, 0], [1, 401, 0], [1, 403, 0], [1, 404, 0], [1, 405, 0], [1, 406, 0]],
        Y := [[0, 0, 0, 900, 900, 900], [0, 0, 0, 0, 0, 0], [0, 0, 0, 0, 0, 0],
              [0, 0, 0, 0, 0, 0], [0, 0, 0, 0, 0, 0]],
        monitoring := True \<rparr>) \<and>
   \<not> monitoring (shift_instance\<lparr> here := 3 \<rparr>) \<and>
   shape0 (X (shift_instance\<lparr> here := 3 \<rparr>)) = 7 \<and>
   X (reset (shift_instance\<lparr>
        priv_X := Some [[1, 1, 0], [1, 401, 0], [1, 403, 0], [1, 404, 0], [1, 405, 0], [1, 406, 0]],
        priv_Y := Some [[0, 0, 0, 900, 900, 900], [0, 0, 0, 0, 0, 0], [0, 0, 0, 0, 0, 0],
                        [0, 0, 0, 0, 0, 0], [0, 0, 0, 0, 0, 0]],
        priv_here := 3, here := 1,
        X := [[1, 1, 0], [1, 401, 0], [1, 403, 0], [1, 404, 0], [1, 405, 0], [1, 406, 0]],
        Y := [[0, 0, 0, 900, 900, 900], [0, 0, 0, 0, 0, 0], [0, 0, 0, 0, 0, 0],
              [0, 0, 0, 0, 0, 0], [0, 0, 0, 0, 0, 0]],
        monitoring := True \<rparr>))
     = [[1, 1, 0], [1, 401, 0], [1, 403, 0], [1, 404, 0], [1, 405, 0], [1, 406, 0]]"
proof -
  have a: "train zero_solvers (shift_instance\<lparr> here := 3 \<rparr>) =
     Inr (shift_instance\<lparr>
        priv_X := Some [[1, 1, 0], [1, 401, 0], [1, 403, 0], [1, 404, 0], [1, 405, 0], [1, 406, 0]],
        priv_Y := Some [[0, 0, 0, 900, 900, 900], [0, 0, 0, 0, 0, 0], [0, 0, 0, 0, 0, 0],
                        [0, 0, 0, 0, 0, 0], [0, 0, 0, 0, 0, 0]],
        priv_here := 3, here := 1,
        X := [[1, 1, 0], [1, 401, 0], [1, 403, 0], [1, 404, 0], [1, 405, 0], [1, 406, 0]],
        Y := [[0, 0, 0, 900, 900, 900], [0, 0, 0, 0, 0, 0], [0, 0, 0, 0, 0, 0],
              [0, 0, 0, 0, 0, 0], [0, 0, 0, 0, 0, 0]],
        monitoring := True \<rparr>)"
    by (simp add: evs upto_rec1 upt_rec)
  have b: "\<not> monitoring (shift_instance\<lparr> here := 3 \<rparr>)" by (simp add: shift_instance_def)
  have c: "shape0 (X (shift_instance\<lparr> here := 3 \<rparr>)) = 7"
    by (simp add: shift_instance_def shift_X_def shape0_def)
  from C9_train_commits_masked_data[OF a b] a b c show ?thesis by simp
qed

section \<open>The denominator of the normalized residuals\<close>








section \<open>Termination of \<^verbatim>\<open>run\<close>\<close>



lemma progress_next: "progress s t \<Longrightarrow> progress s (t\<lparr> here := here t + 1 \<rparr>)"
  by (auto simp: progress_def)























section \<open>The records of a run\<close>





















lemma fitted_next [simp]: "fitted (s\<lparr> here := h \<rparr>) = fitted s"
  by (simp add: fitted_def)



lemma fitted_ran [simp]: "fitted (s\<lparr> ran := b \<rparr>) = fitted s"
  by (simp add: fitted_def)



















end
